theory Spec2Isabelle
  imports Main "HOL-Library.AList"
begin

section \<open>JavaScript values\<close>

text \<open>
  The utilities of \<^verbatim>\<open>src/util/util.js\<close> work on untyped JSON-like trees: submission
  data, component definitions and the flattened component map are all plain objects.
  An object is an association list in insertion order, an array a list.

  What the model leaves out of JavaScript: numbers are integers (printed in decimal);
  a string is a list of characters and its length their number; functions, prototype
  properties and named properties of arrays are not values; an object lists its keys
  in insertion order (JavaScript puts keys that are array indices first); trees are
  values, so two places of a tree never share one object.
\<close>

datatype jsval =
    Undefined
  | Null
  | Bool bool
  | Num int
  | Str string
  | Arr "jsval list"
  | Obj "(string \<times> jsval) list"

type_synonym component = "(string \<times> jsval) list"

text \<open>
  The flattened component map (\<^verbatim>\<open>flattenComponents\<close>): component key to component
  definition. Every entry is an object, so it is stored as its field list.
\<close>

type_synonym components = "(string \<times> component) list"

text \<open>The \<^verbatim>\<open>{label, value}\<close> object that \<^verbatim>\<open>renderComponentValue\<close> returns.\<close>

record compValue =
  label :: jsval
  "value" :: jsval

text \<open>
  A \<^verbatim>\<open>TypeError\<close> is what JavaScript throws on a property read of \<^verbatim>\<open>null\<close> or
  \<^verbatim>\<open>undefined\<close> and on a call of a missing method. \<open>OutOfFuel\<close> is the model's
  own: the recursion depth allowed to a call is used up.
\<close>

datatype error = TypeError | OutOfFuel

subsection \<open>Coercions\<close>

fun truthy :: "jsval \<Rightarrow> bool" where
  "truthy Undefined = False"
| "truthy Null = False"
| "truthy (Bool b) = b"
| "truthy (Num n) = (n \<noteq> 0)"
| "truthy (Str s) = (s \<noteq> [])"
| "truthy (Arr xs) = True"
| "truthy (Obj kvs) = True"

text \<open>\<^verbatim>\<open>a || b\<close>\<close>

definition orElse :: "jsval \<Rightarrow> jsval \<Rightarrow> jsval" where
  "orElse a b = (if truthy a then a else b)"

definition nullish :: "jsval \<Rightarrow> bool" where
  "nullish v = (v = Undefined \<or> v = Null)"

fun digitsOf :: "nat \<Rightarrow> string" where
  "digitsOf n =
     (if n < 10 then [''0123456789'' ! n]
      else digitsOf (n div 10) @ [''0123456789'' ! (n mod 10)])"

declare digitsOf.simps [simp del]

definition showInt :: "int \<Rightarrow> string" where
  "showInt i = (if i < 0 then CHR ''-'' # digitsOf (nat (- i)) else digitsOf (nat i))"

fun joinWith :: "string \<Rightarrow> string list \<Rightarrow> string" where
  "joinWith sep [] = []"
| "joinWith sep [x] = x"
| "joinWith sep (x # y # ys) = x @ sep @ joinWith sep (y # ys)"

text \<open>
  \<^verbatim>\<open>String(v)\<close>, which is also what \<^verbatim>\<open>'' + v\<close> and \<^verbatim>\<open>v.toString()\<close> give on the
  values of the model. An array prints its elements separated by commas, with
  \<^verbatim>\<open>null\<close> and \<^verbatim>\<open>undefined\<close> elements empty.
\<close>

fun toStr :: "jsval \<Rightarrow> string" where
  "toStr Undefined = ''undefined''"
| "toStr Null = ''null''"
| "toStr (Bool b) = (if b then ''true'' else ''false'')"
| "toStr (Num n) = showInt n"
| "toStr (Str s) = s"
| "toStr (Arr xs) =
     joinWith '','' (map (\<lambda>x. if x = Undefined \<or> x = Null then [] else toStr x) xs)"
| "toStr (Obj kvs) = ''[object Object]''"

text \<open>\<^verbatim>\<open>xs.join(sep)\<close>\<close>

definition join :: "string \<Rightarrow> jsval list \<Rightarrow> string" where
  "join sep xs = joinWith sep (map (\<lambda>x. if nullish x then [] else toStr x) xs)"

definition isDigit :: "char \<Rightarrow> bool" where
  "isDigit c = (c \<in> set ''0123456789'')"

definition digitVal :: "char \<Rightarrow> nat" where
  "digitVal c = of_char c - 48"

definition natOfDigits :: "string \<Rightarrow> nat" where
  "natOfDigits s = foldl (\<lambda>n c. 10 * n + digitVal c) 0 s"

text \<open>\<^verbatim>\<open>/^\d+$/\<close>\<close>

definition isUint :: "string \<Rightarrow> bool" where
  "isUint s = (s \<noteq> [] \<and> list_all isDigit s)"

text \<open>
  A property name that is an array index: the canonical decimal form of a natural
  number (\<^verbatim>\<open>"0"\<close>, \<^verbatim>\<open>"12"\<close>, not \<^verbatim>\<open>"01"\<close>).
\<close>

definition arrayIndex :: "string \<Rightarrow> nat option" where
  "arrayIndex k =
     (if isUint k \<and> (k = ''0'' \<or> hd k \<noteq> CHR ''0'') then Some (natOfDigits k) else None)"

text \<open>
  \<^verbatim>\<open>Number(v)\<close>, with \<open>None\<close> for \<^verbatim>\<open>NaN\<close>. Of the strings, only the empty one and
  plain decimal digits are read as numbers.
\<close>

definition toNumber :: "jsval \<Rightarrow> int option" where
  "toNumber v =
     (case v of
        Undefined \<Rightarrow> None
      | Null \<Rightarrow> Some 0
      | Bool b \<Rightarrow> Some (if b then 1 else 0)
      | Num n \<Rightarrow> Some n
      | _ \<Rightarrow> (let s = toStr v in
               if s = [] then Some 0
               else if isUint s then Some (int (natOfDigits s)) else None))"

text \<open>\<^verbatim>\<open>a < n\<close> and \<^verbatim>\<open>a > n\<close> for a number literal \<open>n\<close>: false when \<open>a\<close> is \<^verbatim>\<open>NaN\<close>.\<close>

definition jsLess :: "jsval \<Rightarrow> int \<Rightarrow> bool" where
  "jsLess a n = (case toNumber a of None \<Rightarrow> False | Some m \<Rightarrow> m < n)"

definition jsGreater :: "jsval \<Rightarrow> int \<Rightarrow> bool" where
  "jsGreater a n = (case toNumber a of None \<Rightarrow> False | Some m \<Rightarrow> m > n)"

text \<open>
  \<^verbatim>\<open>a === b\<close>. Two objects or arrays are equal only when they are the same object;
  the values compared here come from different trees (submission and schema), so
  they never are.
\<close>

definition strictEq :: "jsval \<Rightarrow> jsval \<Rightarrow> bool" where
  "strictEq a b =
     (case a of Arr _ \<Rightarrow> False | Obj _ \<Rightarrow> False | _ \<Rightarrow> a = b)"

text \<open>\<^verbatim>\<open>s.toUpperCase()\<close> on ASCII letters.\<close>

definition upperChar :: "char \<Rightarrow> char" where
  "upperChar c =
     (if 97 \<le> (of_char c :: nat) \<and> (of_char c :: nat) \<le> 122
      then char_of ((of_char c :: nat) - 32) else c)"

definition toUpperCase :: "string \<Rightarrow> string" where
  "toUpperCase s = map upperChar s"

subsection \<open>Properties\<close>

text \<open>
  \<^verbatim>\<open>v[k]\<close> for \<open>v\<close> other than \<^verbatim>\<open>null\<close> and \<^verbatim>\<open>undefined\<close> (where the read
  throws; every use below checks first). Objects have their own fields, arrays and
  strings their indices and \<^verbatim>\<open>length\<close>.
\<close>

fun getProp :: "jsval \<Rightarrow> string \<Rightarrow> jsval" where
  "getProp (Obj kvs) k = (case map_of kvs k of Some v \<Rightarrow> v | None \<Rightarrow> Undefined)"
| "getProp (Arr xs) k =
     (if k = ''length'' then Num (int (length xs))
      else (case arrayIndex k of
              Some i \<Rightarrow> if i < length xs then xs ! i else Undefined
            | None \<Rightarrow> Undefined))"
| "getProp (Str s) k =
     (if k = ''length'' then Num (int (length s))
      else (case arrayIndex k of
              Some i \<Rightarrow> if i < length s then Str [s ! i] else Undefined
            | None \<Rightarrow> Undefined))"
| "getProp v k = Undefined"

text \<open>\<^verbatim>\<open>k in Object(v)\<close>\<close>

fun hasProp :: "jsval \<Rightarrow> string \<Rightarrow> bool" where
  "hasProp (Obj kvs) k = (map_of kvs k \<noteq> None)"
| "hasProp (Arr xs) k =
     (k = ''length'' \<or> (case arrayIndex k of Some i \<Rightarrow> i < length xs | None \<Rightarrow> False))"
| "hasProp (Str s) k =
     (k = ''length'' \<or> (case arrayIndex k of Some i \<Rightarrow> i < length s | None \<Rightarrow> False))"
| "hasProp v k = False"

text \<open>\<^verbatim>\<open>v[k] = x\<close> on an object or an array (an array grows up to the index written).\<close>

fun putProp :: "jsval \<Rightarrow> string \<Rightarrow> jsval \<Rightarrow> jsval" where
  "putProp (Obj kvs) k x = Obj (AList.update k x kvs)"
| "putProp (Arr xs) k x =
     (case arrayIndex k of
        Some i \<Rightarrow> Arr ((xs @ replicate (Suc i - length xs) Undefined)[i := x])
      | None \<Rightarrow> Arr xs)"
| "putProp v k x = v"

text \<open>\<^verbatim>\<open>component.f\<close> and \<^verbatim>\<open>component.hasOwnProperty(f)\<close> on a component definition.\<close>

definition field :: "component \<Rightarrow> string \<Rightarrow> jsval" where
  "field c f = (case map_of c f of Some v \<Rightarrow> v | None \<Rightarrow> Undefined)"

definition hasOwn :: "component \<Rightarrow> string \<Rightarrow> bool" where
  "hasOwn c f = (map_of c f \<noteq> None)"

subsection \<open>The lodash functions used\<close>

text \<open>
  lodash's \<^verbatim>\<open>toPath\<close>: the property names of a path string, which are its pieces
  between dots and square brackets. A bracket counts as a separator like a dot; quoted
  names in brackets and unmatched brackets are not modelled.
\<close>

fun pathPieces :: "string \<Rightarrow> string list" where
  "pathPieces [] = [[]]"
| "pathPieces (c # cs) =
     (if c \<in> set ''.[]'' then [] # pathPieces cs
      else (case pathPieces cs of [] \<Rightarrow> [[c]] | p # ps \<Rightarrow> (c # p) # ps))"

definition toPath :: "string \<Rightarrow> string list" where
  "toPath s = filter (\<lambda>p. p \<noteq> []) (pathPieces s)"

fun baseGet :: "jsval \<Rightarrow> string list \<Rightarrow> jsval" where
  "baseGet v [] = v"
| "baseGet v (k # ks) = (if nullish v then Undefined else baseGet (getProp v k) ks)"

text \<open>
  \<^verbatim>\<open>_.get(object, path)\<close>: a path that is itself a property of the object is read
  directly; otherwise the object is walked along the path, and the result is
  \<^verbatim>\<open>undefined\<close> when the walk meets \<^verbatim>\<open>null\<close> or \<^verbatim>\<open>undefined\<close> before its end
  or the path is empty.
\<close>

definition lodash_get :: "jsval \<Rightarrow> string \<Rightarrow> jsval" where
  "lodash_get object path =
     (if nullish object then Undefined
      else if hasProp object path then getProp object path
      else (case toPath path of [] \<Rightarrow> Undefined | k # ks \<Rightarrow> baseGet object (k # ks)))"

definition isObject :: "jsval \<Rightarrow> bool" where
  "isObject v = (case v of Arr _ \<Rightarrow> True | Obj _ \<Rightarrow> True | _ \<Rightarrow> False)"

text \<open>
  The loop of \<^verbatim>\<open>_.set\<close>: objects on the way are kept, a missing one is created (an
  array when the next name is a number), and the walk goes through a primitive
  without writing.
\<close>

fun baseSet :: "string list \<Rightarrow> jsval \<Rightarrow> jsval \<Rightarrow> jsval" where
  "baseSet [] x nested = nested"
| "baseSet [k] x nested = (if isObject nested then putProp nested k x else nested)"
| "baseSet (k # k' # ks) x nested =
     (if isObject nested then
        (let child = getProp nested k;
             child = (if nullish child then (if isUint k' then Arr [] else Obj []) else child)
         in putProp nested k (baseSet (k' # ks) x child))
      else nested)"

definition lodash_set :: "jsval \<Rightarrow> string \<Rightarrow> jsval \<Rightarrow> jsval" where
  "lodash_set object path x =
     (if nullish object then object
      else baseSet
             (if hasProp object path \<or> (\<forall>c \<in> set path. c \<notin> set ''.[]'') then [path]
              else toPath path) x object)"

text \<open>lodash's \<^verbatim>\<open>isLength\<close>: a number that can be the length of an array.\<close>

definition isLength :: "jsval \<Rightarrow> bool" where
  "isLength v = (case v of Num n \<Rightarrow> 0 \<le> n \<and> n \<le> 9007199254740991 | _ \<Rightarrow> False)"

definition indexKeys :: "nat \<Rightarrow> string list" where
  "indexKeys n = map digitsOf [0..<n]"

text \<open>
  The (key, element) pairs that \<^verbatim>\<open>_.each\<close> and \<^verbatim>\<open>_.map\<close> visit, in order: the
  elements of an array, the characters of a string, the indices below \<^verbatim>\<open>length\<close> of
  an object with a numeric \<^verbatim>\<open>length\<close>, the fields of any other object, and nothing
  for other values. An index is passed in its string form.
\<close>

fun collEntries :: "jsval \<Rightarrow> (string \<times> jsval) list" where
  "collEntries (Arr xs) = zip (indexKeys (length xs)) xs"
| "collEntries (Str s) = zip (indexKeys (length s)) (map (\<lambda>c. Str [c]) s)"
| "collEntries (Obj kvs) =
     (if isLength (getProp (Obj kvs) ''length'')
      then map (\<lambda>k. (k, getProp (Obj kvs) k))
             (indexKeys (nat (case getProp (Obj kvs) ''length'' of Num n \<Rightarrow> n | _ \<Rightarrow> 0)))
      else kvs)"
| "collEntries v = []"

text \<open>The values that \<^verbatim>\<open>for (var i in values) { values[i] }\<close> reads.\<close>

fun forInValues :: "jsval \<Rightarrow> jsval list" where
  "forInValues (Arr xs) = xs"
| "forInValues (Obj kvs) = map snd kvs"
| "forInValues (Str s) = map (\<lambda>c. Str [c]) s"
| "forInValues v = []"

text \<open>
  A loop whose body may throw and may change a state: it runs the body on each
  element in turn, passing the state on, and stops at the first error.
\<close>

fun mapState :: "('a \<Rightarrow> 's \<Rightarrow> error + ('b \<times> 's)) \<Rightarrow> 'a list \<Rightarrow> 's \<Rightarrow> error + ('b list \<times> 's)" where
  "mapState f [] s = Inr ([], s)"
| "mapState f (x # xs) s =
     (case f x s of
        Inl e \<Rightarrow> Inl e
      | Inr (y, s') \<Rightarrow>
          (case mapState f xs s' of
             Inl e \<Rightarrow> Inl e
           | Inr (ys, s'') \<Rightarrow> Inr (y # ys, s'')))"

section \<open>Rendering a component value\<close>

text \<open>
  The type of \<^verbatim>\<open>this.renderComponentValue\<close> as the body of the function calls it:
  data, key and the component map in, the \<^verbatim>\<open>{label, value}\<close> object and the
  component map as the call leaves it out.
\<close>

type_synonym renderer = "jsval \<Rightarrow> string \<Rightarrow> components \<Rightarrow> error + (compValue \<times> components)"

definition tableOpen :: string where
  \<open>tableOpen = ''<table border="1" style="width:100%">''\<close>

text \<open>\<^verbatim>\<open>case 'container'\<close>: one table row per entry of the value, rendered with the
  value as data and the entry's key as key.\<close>

definition containerRow :: "compValue \<Rightarrow> string" where
  \<open>containerRow subCompValue =
     ''<tr>''
     @ ''<th style="text-align:right;padding: 5px 10px;">'' @ toStr (label subCompValue) @ ''</th>''
     @ ''<td style="width:100%;padding:5px 10px;">'' @ toStr (value subCompValue) @ ''</td>''
     @ ''</tr>''\<close>

definition renderContainer :: "renderer \<Rightarrow> jsval \<Rightarrow> components \<Rightarrow> error + (jsval \<times> components)" where
  "renderContainer rec v components =
     (case mapState (\<lambda>(subKey, subValue) comps. rec v subKey comps) (collEntries v) components of
        Inl e \<Rightarrow> Inl e
      | Inr (rows, comps') \<Rightarrow>
          Inr (Str (tableOpen @ concat (map containerRow rows) @ ''</table>''), comps'))"

text \<open>\<^verbatim>\<open>case 'datagrid'\<close>: the columns are the components named by the keys of the
  first row; a header row, then one row per element of the value.\<close>

definition datagridColumns :: "jsval \<Rightarrow> components \<Rightarrow> component list" where
  "datagridColumns v components =
     (if jsGreater (getProp v ''length'') 0
      then List.map_filter (\<lambda>(columnKey, column). map_of components columnKey)
             (collEntries (getProp v ''0''))
      else [])"

definition datagridHeader :: "component list \<Rightarrow> string" where
  \<open>datagridHeader columns =
     ''<tr>''
     @ concat (map (\<lambda>column. ''<th style="padding: 5px 10px;">''
                      @ toStr (orElse (field column ''label'') (field column ''key'')) @ ''</th>'')
                 columns)
     @ ''</tr>''\<close>

definition datagridCell :: "compValue \<Rightarrow> string" where
  \<open>datagridCell c = ''<td style="padding:5px 10px;">'' @ toStr (value c) @ ''</td>''\<close>

definition renderDatagridRow ::
  "renderer \<Rightarrow> component list \<Rightarrow> jsval \<Rightarrow> components \<Rightarrow> error + (string \<times> components)" where
  "renderDatagridRow rec columns subValue components =
     (case mapState (\<lambda>column comps. rec subValue (toStr (field column ''key'')) comps)
             columns components of
        Inl e \<Rightarrow> Inl e
      | Inr (cells, comps') \<Rightarrow>
          Inr (''<tr>'' @ concat (map datagridCell cells) @ ''</tr>'', comps'))"

definition renderDatagrid :: "renderer \<Rightarrow> jsval \<Rightarrow> components \<Rightarrow> error + (jsval \<times> components)" where
  "renderDatagrid rec v components =
     (let columns = datagridColumns v components in
      case mapState (renderDatagridRow rec columns) (map snd (collEntries v)) components of
        Inl e \<Rightarrow> Inl e
      | Inr (rows, comps') \<Rightarrow>
          Inr (Str (tableOpen @ datagridHeader columns @ concat rows @ ''</table>''), comps'))"

text \<open>\<^verbatim>\<open>case 'datetime'\<close>. \<open>moment v fmt\<close> stands for \<^verbatim>\<open>moment(v).format(fmt)\<close> of the
  moment library.\<close>

definition renderDatetime ::
  "(jsval \<Rightarrow> string \<Rightarrow> string) \<Rightarrow> component \<Rightarrow> jsval \<Rightarrow> error + jsval" where
  "renderDatetime moment component v =
     (case (if truthy (field component ''enableDate'')
            then (case field component ''format'' of
                    Str fmt \<Rightarrow> Inr (toUpperCase fmt)
                  | _ \<Rightarrow> Inl TypeError)
            else Inr []) of
        Inl e \<Rightarrow> Inl e
      | Inr dateFormat \<Rightarrow>
          (let dateFormat = (if truthy (field component ''enableTime'')
                             then dateFormat @ '' hh:mm:ss A'' else dateFormat)
           in if dateFormat \<noteq> [] then Inr (Str (moment v dateFormat)) else Inr v))"

text \<open>\<^verbatim>\<open>case 'radio': case 'select': case 'selectboxes'\<close>: the option list, then the
  first option whose value is the stored value.\<close>

definition optionValues :: "component \<Rightarrow> error + jsval" where
  "optionValues component =
     (if hasOwn component ''values'' then Inr (field component ''values'')
      else if hasOwn component ''data'' then
        (if nullish (field component ''data'') then Inl TypeError
         else if truthy (getProp (field component ''data'') ''values'')
         then Inr (getProp (field component ''data'') ''values'')
         else Inr (Arr []))
      else Inr (Arr []))"

fun findOption :: "jsval list \<Rightarrow> jsval \<Rightarrow> error + jsval option" where
  "findOption [] v = Inr None"
| "findOption (subCompValue # rest) v =
     (if nullish subCompValue then Inl TypeError
      else if strictEq (getProp subCompValue ''value'') v
      then Inr (Some (getProp subCompValue ''label''))
      else findOption rest v)"

definition renderOptions :: "component \<Rightarrow> jsval \<Rightarrow> error + jsval" where
  "renderOptions component v =
     (case optionValues component of
        Inl e \<Rightarrow> Inl e
      | Inr values \<Rightarrow>
          (case findOption (forInValues values) v of
             Inl e \<Rightarrow> Inl e
           | Inr None \<Rightarrow> Inr v
           | Inr (Some l) \<Rightarrow> Inr l))"

definition withState :: "'s \<Rightarrow> error + 'a \<Rightarrow> error + ('a \<times> 's)" where
  "withState s r = (case r of Inl e \<Rightarrow> Inl e | Inr x \<Rightarrow> Inr (x, s))"

text \<open>The \<^verbatim>\<open>switch (component.type)\<close>: the value computed for a single stored value.\<close>

definition renderType ::
  "(jsval \<Rightarrow> string \<Rightarrow> string) \<Rightarrow> renderer \<Rightarrow> component \<Rightarrow> jsval \<Rightarrow> components
     \<Rightarrow> error + (jsval \<times> components)" where
  \<open>renderType moment rec component v components =
     (let type = field component ''type'' in
      if type = Str ''password'' then Inr (Str ''--- PASSWORD ---'', components)
      else if type = Str ''address'' then
        Inr (if truthy v then getProp v ''formatted_address'' else Str [], components)
      else if type = Str ''signature'' then
        Inr (Str (''<img src="'' @ toStr v @ ''" />''), components)
      else if type = Str ''container'' then renderContainer rec v components
      else if type = Str ''datagrid'' then renderDatagrid rec v components
      else if type = Str ''datetime'' then withState components (renderDatetime moment component v)
      else if type = Str ''radio'' \<or> type = Str ''select'' \<or> type = Str ''selectboxes'' then
        withState components (renderOptions component v)
      else Inr (v, components))\<close>

text \<open>\<^verbatim>\<open>components[key].multiple = false\<close>\<close>

definition clearMultiple :: "string \<Rightarrow> component \<Rightarrow> components \<Rightarrow> components" where
  "clearMultiple key component components =
     AList.update key (AList.update ''multiple'' (Bool False) component) components"

text \<open>\<^verbatim>\<open>if (component.multiple) { ... }\<close>: the flag is switched off in the component
  map, each element of the value is rendered on its own under the same key, and the
  rendered values are joined.\<close>

definition renderMultiple ::
  "renderer \<Rightarrow> string \<Rightarrow> jsval \<Rightarrow> components \<Rightarrow> error + (compValue list \<times> components)" where
  "renderMultiple rec key v components =
     mapState (\<lambda>subValue comps. rec (Obj [(key, subValue)]) key comps)
       (map snd (collEntries v)) components"

text \<open>\<^verbatim>\<open>var value = _.get(data, key); if (!value) { value = ''; }\<close>\<close>

definition storedValue :: "jsval \<Rightarrow> string \<Rightarrow> jsval" where
  "storedValue data key = (if truthy (lodash_get data key) then lodash_get data key else Str [])"

text \<open>\<^verbatim>\<open>component.label || component.placeholder || component.key\<close>\<close>

definition labelOf :: "component \<Rightarrow> jsval" where
  "labelOf component =
     orElse (field component ''label'')
       (orElse (field component ''placeholder'') (field component ''key''))"

text \<open>\<^verbatim>\<open>if (component.protected) { compValue.value = '--- PROTECTED ---'; }\<close>\<close>

definition protectedOverride :: "component \<Rightarrow> jsval \<Rightarrow> jsval" where
  "protectedOverride component x =
     (if truthy (field component ''protected'') then Str ''--- PROTECTED ---'' else x)"

text \<open>\<^verbatim>\<open>compValue.value ? compValue.value.toString() : ''\<close>\<close>

definition ensureString :: "jsval \<Rightarrow> jsval" where
  "ensureString x = (if truthy x then Str (toStr x) else Str [])"

text \<open>
  The body of \<^verbatim>\<open>renderComponentValue\<close>, with \<open>rec\<close> for its recursive calls.
\<close>

definition renderBody ::
  "(jsval \<Rightarrow> string \<Rightarrow> string) \<Rightarrow> renderer \<Rightarrow> renderer" where
  "renderBody moment rec data key components =
     (let v = storedValue data key
      in case map_of components key of
           None \<Rightarrow> Inr (\<lparr>label = Str key, value = v\<rparr>, components)
         | Some component \<Rightarrow>
             if truthy (field component ''multiple'') then
               (case renderMultiple rec key v (clearMultiple key component components) of
                  Inl e \<Rightarrow> Inl e
                | Inr (subs, comps') \<Rightarrow>
                    Inr (\<lparr>label = labelOf component,
                          value = Str (join '', '' (map value subs))\<rparr>, comps'))
             else
               (case renderType moment rec component v components of
                  Inl e \<Rightarrow> Inl e
                | Inr (x, comps') \<Rightarrow>
                    Inr (\<lparr>label = labelOf component,
                          value = ensureString (protectedOverride component x)\<rparr>, comps')))"

text \<open>
  \<^verbatim>\<open>renderComponentValue(data, key, components)\<close>. The first argument stands for the
  moment library, the second bounds the depth of the recursion: a call that would go
  deeper ends in \<open>OutOfFuel\<close>. The component map is returned as the call leaves it.
\<close>

primrec renderComponentValue ::
  "(jsval \<Rightarrow> string \<Rightarrow> string) \<Rightarrow> nat \<Rightarrow> renderer" where
  "renderComponentValue moment 0 = (\<lambda>data key components. Inl OutOfFuel)"
| "renderComponentValue moment (Suc n) = renderBody moment (renderComponentValue moment n)"

section \<open>Removing protected fields\<close>

text \<open>The pieces of a dotted path: \<^verbatim>\<open>path.split('.')\<close>.\<close>

fun segments :: "string \<Rightarrow> string list" where
  "segments [] = [[]]"
| "segments (c # cs) =
     (if c = CHR ''.'' then [] # segments cs
      else (case segments cs of [] \<Rightarrow> [[c]] | seg # segs \<Rightarrow> (c # seg) # segs))"

text \<open>\<^verbatim>\<open>delete v[k]\<close>: an object loses the field, an array keeps a hole.\<close>

fun removeProp :: "jsval \<Rightarrow> string \<Rightarrow> jsval" where
  "removeProp (Obj kvs) k = Obj (AList.delete k kvs)"
| "removeProp (Arr xs) k =
     (case arrayIndex k of
        Some i \<Rightarrow> if i < length xs then Arr (xs[i := Undefined]) else Arr xs
      | None \<Rightarrow> Arr xs)"
| "removeProp v k = v"

fun baseDelete :: "string list \<Rightarrow> jsval \<Rightarrow> jsval" where
  "baseDelete [] obj = obj"
| "baseDelete [k] obj = removeProp obj k"
| "baseDelete (k # k' # ks) obj =
     (if isObject obj \<and> isObject (getProp obj k)
      then putProp obj k (baseDelete (k' # ks) (getProp obj k)) else obj)"

text \<open>
  Modelled from the spec: \<^verbatim>\<open>deleteProp\<close> is the function of the package
  \<^verbatim>\<open>delete-property\<close>, which is not under \<^verbatim>\<open>src/\<close>. \<open>deleteProp path\<close> is the
  delete rule of the spec: it goes down the dotted path and removes the field at its
  end; a submission that has no object on the way is left as it is.
\<close>

definition deleteProp :: "string \<Rightarrow> jsval \<Rightarrow> jsval" where
  "deleteProp path sub = baseDelete (segments path) sub"

text \<open>
  The functions pushed on \<^verbatim>\<open>modifyFields\<close>: \<^verbatim>\<open>deleteProp(path)\<close>, or the closure
  over \<^verbatim>\<open>fieldPath\<close> that masks a signature.
\<close>

datatype modifyField = DeleteField string | MaskSignature string

fun modifyField_apply :: "modifyField \<Rightarrow> jsval \<Rightarrow> jsval" where
  "modifyField_apply (DeleteField path) sub = deleteProp path sub"
| "modifyField_apply (MaskSignature fieldPath) sub =
     (let data = lodash_get sub fieldPath
      in lodash_set sub fieldPath
           (if \<not> truthy data \<or> jsLess (getProp data ''length'') 25 then Str [] else Str ''YES''))"

text \<open>The callback given to \<^verbatim>\<open>eachComponent\<close>: what one component adds to
  \<^verbatim>\<open>modifyFields\<close>.\<close>

definition protectRule :: "jsval \<Rightarrow> component \<Rightarrow> string \<Rightarrow> modifyField list" where
  "protectRule action component path =
     (let path = ''data.'' @ path
      in if truthy (field component ''protected'') then [DeleteField path]
         else if field component ''type'' = Str ''signature'' \<and> action = Str ''index''
         then [MaskSignature path]
         else [])"

text \<open>
  \<^verbatim>\<open>removeProtectedFields(form, action, submissions)\<close>. \<open>eachComponent\<close> stands for
  the traversal of formio-utils: the (component, path) pairs it passes to the callback
  for a component list, layout components included, in order. The submissions are
  changed in place; the model returns them.
\<close>

definition removeProtectedFields ::
  "(jsval \<Rightarrow> (component \<times> string) list) \<Rightarrow> jsval \<Rightarrow> jsval \<Rightarrow> jsval \<Rightarrow> jsval list" where
  "removeProtectedFields eachComponent form action submissions =
     (let submissions = (case submissions of Arr subs \<Rightarrow> subs | _ \<Rightarrow> [submissions]);
          modifyFields = concat (map (\<lambda>(component, path). protectRule action component path)
                                   (eachComponent (getProp form ''components'')))
      in if length modifyFields > 0
         then map (\<lambda>submission. fold modifyField_apply modifyFields submission) submissions
         else submissions)"

section \<open>Submission keys and form component keys\<close>

text \<open>
  \<^verbatim>\<open>key.replace(/\./g, '.data.')\<close>: every dot of the key becomes \<^verbatim>\<open>.data.\<close>.
\<close>

fun getSubmissionKey :: "string \<Rightarrow> string" where
  "getSubmissionKey [] = []"
| "getSubmissionKey (c # cs) =
     (if c = CHR ''.'' then ''.data.'' @ getSubmissionKey cs else c # getSubmissionKey cs)"

text \<open>
  \<^verbatim>\<open>key.replace(/\.data\./g, '.')\<close>: the key is scanned from the left; where the
  text \<^verbatim>\<open>.data.\<close> starts, it is replaced by one dot and the scan goes on behind it
  (matches of a global regular expression do not overlap).
\<close>

fun getFormComponentKey :: "string \<Rightarrow> string" where
  "getFormComponentKey s =
     (if s = [] then []
      else if take 6 s = ''.data.'' then CHR ''.'' # getFormComponentKey (drop 6 s)
      else hd s # getFormComponentKey (tl s))"

declare getFormComponentKey.simps [simp del]

section \<open>Notions used in the statements\<close>

text \<open>A key that is one property name: not empty, without dots and brackets.\<close>

definition plainKey :: "string \<Rightarrow> bool" where
  "plainKey k = (k \<noteq> [] \<and> (\<forall>c \<in> set k. c \<notin> set ''.[]''))"

text \<open>The value has a property at each step of the path.\<close>

fun hasPath :: "string list \<Rightarrow> jsval \<Rightarrow> bool" where
  "hasPath [] v = True"
| "hasPath (k # ks) v = (hasProp v k \<and> hasPath ks (getProp v k))"

text \<open>What a call may do to a component definition: nothing, or switch a set
  \<^verbatim>\<open>multiple\<close> flag off.\<close>

definition flagCleared :: "component \<Rightarrow> component \<Rightarrow> bool" where
  "flagCleared c c' =
     (c' = c \<or> (truthy (field c ''multiple'') \<and> c' = AList.update ''multiple'' (Bool False) c))"

text \<open>Two component maps with the same keys in the same order, whose definitions
  differ at most by cleared \<^verbatim>\<open>multiple\<close> flags.\<close>

definition onlyFlagsCleared :: "components \<Rightarrow> components \<Rightarrow> bool" where
  "onlyFlagsCleared cs cs' =
     (map fst cs' = map fst cs \<and> list_all2 flagCleared (map snd cs) (map snd cs'))"


text \<open>A stand-in for the moment library where a concrete call needs one.\<close>

definition momentStub :: "jsval \<Rightarrow> string \<Rightarrow> string" where
  "momentStub v fmt = ''Invalid date''"

section \<open>Verified properties\<close>

subsection \<open>Keys\<close>

lemma getFormComponentKey_Nil: "getFormComponentKey [] = []"
  by (simp add: getFormComponentKey.simps)

lemma getFormComponentKey_data:
  "getFormComponentKey (''.data.'' @ s) = CHR ''.'' # getFormComponentKey s"
  by (subst getFormComponentKey.simps) simp

lemma getFormComponentKey_other:
  "c \<noteq> CHR ''.'' \<Longrightarrow> getFormComponentKey (c # s) = c # getFormComponentKey s"
  by (subst getFormComponentKey.simps) auto

lemma key_roundtrip_all: "getFormComponentKey (getSubmissionKey key) = key"
proof (induction key)
  case Nil
  show ?case by (simp add: getFormComponentKey_Nil)
next
  case (Cons c cs)
  show ?case
  proof (cases "c = CHR ''.''")
    case True
    have "getFormComponentKey (getSubmissionKey (c # cs))
            = getFormComponentKey (''.data.'' @ getSubmissionKey cs)"
      using True by simp
    also have "\<dots> = CHR ''.'' # getFormComponentKey (getSubmissionKey cs)"
      by (rule getFormComponentKey_data)
    finally show ?thesis using True Cons.IH by simp
  next
    case False
    then show ?thesis using Cons.IH by (simp add: getFormComponentKey_other)
  qed
qed

text \<open>
  C10. For every dotted form-component key none of whose segments is the literal
  \<^verbatim>\<open>data\<close>, converting it to a submission key with \<open>getSubmissionKey\<close> and back with
  \<open>getFormComponentKey\<close> yields the original key.
\<close>

theorem key_roundtrip:
  "''data'' \<notin> set (segments key) \<Longrightarrow> getFormComponentKey (getSubmissionKey key) = key"
  by (rule key_roundtrip_all)

theorem key_roundtrip_witness:
  "''data'' \<notin> set (segments ''user.name'')
   \<and> getSubmissionKey ''user.name'' = ''user.data.name''
   \<and> getFormComponentKey (getSubmissionKey ''user.name'') = ''user.name''"
  using key_roundtrip [of "''user.name''"] by simp

subsection \<open>Paths\<close>

lemma pathPieces_plain: "\<forall>c \<in> set k. c \<notin> set ''.[]'' \<Longrightarrow> pathPieces k = [k]"
  by (induction k) auto

lemma toPath_data: "plainKey k \<Longrightarrow> toPath (''data.'' @ k) = [''data'', k]"
  by (simp add: toPath_def plainKey_def pathPieces_plain)

lemma lodash_get_two:
  assumes "map_of kvs a = Some (Obj d)" "toPath p = [a, k]" "map_of kvs p = None"
  shows "lodash_get (Obj kvs) p = (case map_of d k of Some v \<Rightarrow> v | None \<Rightarrow> Undefined)"
  using assms by (simp add: lodash_get_def nullish_def)

lemma lodash_set_two:
  assumes "map_of kvs a = Some (Obj d)" "toPath p = [a, k]" "map_of kvs p = None"
    "\<exists>c \<in> set p. c \<in> set ''.[]''"
  shows "lodash_set (Obj kvs) p x = Obj (AList.update a (Obj (AList.update k x d)) kvs)"
  using assms by (auto simp: lodash_set_def nullish_def isObject_def)

lemma jsLess_Num: "jsLess (Num n) m = (n < m)"
  by (simp add: jsLess_def toNumber_def)

lemma mask_string:
  assumes "lodash_get sub p = Str s"
  shows "modifyField_apply (MaskSignature p) sub = lodash_set sub p (Str (if length s < 25 then [] else ''YES''))"
  using assms by (auto simp: jsLess_Num)

lemma update_absent: "map_of al k = None \<Longrightarrow> AList.update k v al = al @ [(k, v)]"
  by (induction al) auto

lemma update_same: "map_of al k = Some v \<Longrightarrow> AList.update k v al = al"
  by (induction al) auto

lemma delete_absent: "map_of al k = None \<Longrightarrow> AList.delete k al = al"
  by (induction al) auto

lemma removeProp_absent: "\<not> hasProp obj k \<Longrightarrow> removeProp obj k = obj"
  by (cases obj) (auto simp: delete_absent split: option.splits)

lemma arrayIndex_length: "arrayIndex ''length'' = None"
  by (simp add: arrayIndex_def isUint_def isDigit_def)

lemma putProp_same: "hasProp obj k \<Longrightarrow> putProp obj k (getProp obj k) = obj"
  by (cases obj) (auto simp: update_same arrayIndex_length split: option.splits)

lemma getProp_absent: "\<not> hasProp obj k \<Longrightarrow> getProp obj k = Undefined"
  by (cases obj) (auto split: option.splits)

lemma baseDelete_absent: "\<not> hasPath ks obj \<Longrightarrow> baseDelete ks obj = obj"
proof (induction ks obj rule: baseDelete.induct)
  case (1 obj)
  then show ?case by simp
next
  case (2 k obj)
  then show ?case by (simp add: removeProp_absent)
next
  case (3 k k' ks obj)
  show ?case
  proof (cases "isObject obj \<and> isObject (getProp obj k)")
    case False
    then show ?thesis by auto
  next
    case True
    then have has: "hasProp obj k"
      by (cases "hasProp obj k") (auto simp: getProp_absent isObject_def)
    with "3.prems" have "\<not> hasPath (k' # ks) (getProp obj k)" by simp
    with True "3.IH" have "baseDelete (k' # ks) (getProp obj k) = getProp obj k" by blast
    with True has show ?thesis by (simp add: putProp_same)
  qed
qed

subsection \<open>Redaction rules\<close>

text \<open>
  C2, as stated, fails for the signature mask: applied to a submission whose data has
  no signature, the rule writes the empty string there.
\<close>

theorem mask_rule_creates_path_counterexample:
  "protectRule (Str ''index'') [(''type'', Str ''signature''), (''key'', Str ''sig'')] ''sig''
     = [MaskSignature ''data.sig'']
   \<and> lodash_get (Obj [(''data'', Obj [])]) ''data.sig'' = Undefined
   \<and> modifyField_apply (MaskSignature ''data.sig'') (Obj [(''data'', Obj [])])
       = Obj [(''data'', Obj [(''sig'', Str [])])]
   \<and> modifyField_apply (MaskSignature ''data.sig'') (Obj [(''data'', Obj [])])
       \<noteq> Obj [(''data'', Obj [])]"
  by code_simp

text \<open>
  C2, amended. A delete rule applied to a submission that has no property at the rule's
  path leaves the submission unchanged. A signature-mask rule for a top-level component
  applied to a submission whose data object has no property of that key is not a no-op:
  it adds the property, with the empty string as value. Neither raises an error.
\<close>

theorem rule_on_missing_path:
  "(\<not> hasPath (segments path) sub \<longrightarrow> modifyField_apply (DeleteField path) sub = sub)
   \<and> (map_of kvs ''data'' = Some (Obj d) \<and> plainKey k \<and> map_of d k = None
        \<and> map_of kvs (''data.'' @ k) = None
      \<longrightarrow> modifyField_apply (MaskSignature (''data.'' @ k)) (Obj kvs)
            = Obj (AList.update ''data'' (Obj (d @ [(k, Str [])])) kvs))"
proof (intro conjI impI)
  assume "\<not> hasPath (segments path) sub"
  then show "modifyField_apply (DeleteField path) sub = sub"
    by (simp add: deleteProp_def baseDelete_absent)
next
  assume a: "map_of kvs ''data'' = Some (Obj d) \<and> plainKey k \<and> map_of d k = None
        \<and> map_of kvs (''data.'' @ k) = None"
  define p where "p = ''data.'' @ k"
  have tp: "toPath p = [''data'', k]" unfolding p_def using a by (intro toPath_data) simp
  have sep: "\<exists>c \<in> set p. c \<in> set ''.[]''" by (simp add: p_def)
  have none: "map_of kvs p = None" using a by (simp add: p_def)
  have g: "lodash_get (Obj kvs) p = Undefined"
    using a lodash_get_two [OF _ tp none, of d] by simp
  have "modifyField_apply (MaskSignature p) (Obj kvs) = lodash_set (Obj kvs) p (Str [])"
    by (simp add: g)
  also have "\<dots> = Obj (AList.update ''data'' (Obj (AList.update k (Str []) d)) kvs)"
    using a lodash_set_two [OF _ tp none sep, of d] by simp
  finally show "modifyField_apply (MaskSignature (''data.'' @ k)) (Obj kvs)
            = Obj (AList.update ''data'' (Obj (d @ [(k, Str [])])) kvs)"
    using a by (simp add: p_def update_absent)
qed

theorem rule_on_missing_path_witness:
  "\<not> hasPath (segments ''data.pw'') (Obj [(''data'', Obj [(''name'', Str ''Jane'')])])
   \<and> modifyField_apply (DeleteField ''data.pw'') (Obj [(''data'', Obj [(''name'', Str ''Jane'')])])
       = Obj [(''data'', Obj [(''name'', Str ''Jane'')])]
   \<and> map_of [(''data'', Obj [(''name'', Str ''Jane'')])] ''data'' = Some (Obj [(''name'', Str ''Jane'')])
   \<and> plainKey ''sig'' \<and> map_of [(''name'', Str ''Jane'')] ''sig'' = None
   \<and> map_of [(''data'', Obj [(''name'', Str ''Jane'')])] (''data.'' @ ''sig'') = None
   \<and> modifyField_apply (MaskSignature (''data.'' @ ''sig'')) (Obj [(''data'', Obj [(''name'', Str ''Jane'')])])
       = Obj [(''data'', Obj [(''name'', Str ''Jane''), (''sig'', Str [])])]"
  using rule_on_missing_path [of "''data.pw''" "Obj [(''data'', Obj [(''name'', Str ''Jane'')])]"
      "[(''data'', Obj [(''name'', Str ''Jane'')])]" "[(''name'', Str ''Jane'')]" "''sig''"]
  by (simp add: plainKey_def)


text \<open>
  C5, as stated, fails for a signature component that is protected: in the index
  context its rule is the delete rule, not the mask.
\<close>

theorem protected_signature_rule_counterexample:
  "field [(''type'', Str ''signature''), (''key'', Str ''sig''), (''protected'', Bool True)] ''type''
     = Str ''signature''
   \<and> protectRule (Str ''index'')
        [(''type'', Str ''signature''), (''key'', Str ''sig''), (''protected'', Bool True)] ''sig''
     = [DeleteField ''data.sig'']"
  by code_simp

text \<open>
  C5, amended. For a component of type signature that is not protected, the rule list
  gets a mask rule exactly when the context is \<^verbatim>\<open>index\<close> (a protected one gets the
  delete rule in every context). Applying the mask rule overwrites a stored string
  with the empty string when its length is below 25 and with \<^verbatim>\<open>YES\<close> otherwise.
  Under the context \<^verbatim>\<open>display\<close> a signature that is not protected adds no rule, and
  the submissions are left as they are.
\<close>

theorem signature_mask_rule:
  assumes "field component ''type'' = Str ''signature''"
  shows "protectRule action component path =
           (if truthy (field component ''protected'') then [DeleteField (''data.'' @ path)]
            else if action = Str ''index'' then [MaskSignature (''data.'' @ path)]
            else [])
   \<and> (lodash_get sub p = Str s \<longrightarrow>
        modifyField_apply (MaskSignature p) sub
          = lodash_set sub p (Str (if length s < 25 then [] else ''YES'')))
   \<and> (map_of kvs ''data'' = Some (Obj d) \<and> plainKey path \<and> map_of kvs (''data.'' @ path) = None
        \<and> map_of d path = Some (Str s) \<longrightarrow>
        modifyField_apply (MaskSignature (''data.'' @ path)) (Obj kvs)
          = Obj (AList.update ''data''
                  (Obj (AList.update path (Str (if length s < 25 then [] else ''YES'')) d)) kvs))
   \<and> (\<not> truthy (field component ''protected'')
        \<and> eachComponent (getProp form ''components'') = [(component, path)] \<longrightarrow>
        protectRule (Str ''display'') component path = []
        \<and> removeProtectedFields eachComponent form (Str ''display'') (Arr subs) = subs)"
proof (intro conjI impI)
  show "protectRule action component path =
           (if truthy (field component ''protected'') then [DeleteField (''data.'' @ path)]
            else if action = Str ''index'' then [MaskSignature (''data.'' @ path)]
            else [])"
    using assms by (simp add: protectRule_def)
next
  assume "lodash_get sub p = Str s"
  then show "modifyField_apply (MaskSignature p) sub
          = lodash_set sub p (Str (if length s < 25 then [] else ''YES''))"
    by (rule mask_string)
next
  assume a: "map_of kvs ''data'' = Some (Obj d) \<and> plainKey path
        \<and> map_of kvs (''data.'' @ path) = None \<and> map_of d path = Some (Str s)"
  define q where "q = ''data.'' @ path"
  have tp: "toPath q = [''data'', path]" unfolding q_def using a by (intro toPath_data) simp
  have sep: "\<exists>c \<in> set q. c \<in> set ''.[]''" by (simp add: q_def)
  have none: "map_of kvs q = None" using a by (simp add: q_def)
  have g: "lodash_get (Obj kvs) q = Str s"
    using a lodash_get_two [OF _ tp none, of d] by simp
  have "modifyField_apply (MaskSignature q) (Obj kvs)
          = lodash_set (Obj kvs) q (Str (if length s < 25 then [] else ''YES''))"
    using g by (rule mask_string)
  also have "\<dots> = Obj (AList.update ''data''
                  (Obj (AList.update path (Str (if length s < 25 then [] else ''YES'')) d)) kvs)"
    using a lodash_set_two [OF _ tp none sep, of d] by simp
  finally show "modifyField_apply (MaskSignature (''data.'' @ path)) (Obj kvs)
          = Obj (AList.update ''data''
                  (Obj (AList.update path (Str (if length s < 25 then [] else ''YES'')) d)) kvs)"
    by (simp add: q_def)
next
  assume b: "\<not> truthy (field component ''protected'')
        \<and> eachComponent (getProp form ''components'') = [(component, path)]"
  then show "protectRule (Str ''display'') component path = []"
    by (simp add: protectRule_def)
  from b show "removeProtectedFields eachComponent form (Str ''display'') (Arr subs) = subs"
    by (simp add: removeProtectedFields_def protectRule_def)
qed

theorem signature_mask_rule_witness:
  "field [(''type'', Str ''signature''), (''key'', Str ''sig'')] ''type'' = Str ''signature''
   \<and> protectRule (Str ''index'') [(''type'', Str ''signature''), (''key'', Str ''sig'')] ''sig''
       = [MaskSignature ''data.sig'']
   \<and> lodash_get (Obj [(''data'', Obj [(''sig'', Str ''data:image/png;base64,iVBORw0KGgo'')])]) ''data.sig''
       = Str ''data:image/png;base64,iVBORw0KGgo''
   \<and> modifyField_apply (MaskSignature ''data.sig'')
         (Obj [(''data'', Obj [(''sig'', Str ''data:image/png;base64,iVBORw0KGgo'')])])
       = Obj [(''data'', Obj [(''sig'', Str ''YES'')])]
   \<and> map_of [(''data'', Obj [(''sig'', Str ''short'')])] ''data'' = Some (Obj [(''sig'', Str ''short'')])
   \<and> plainKey ''sig''
   \<and> map_of [(''data'', Obj [(''sig'', Str ''short'')])] (''data.'' @ ''sig'') = None
   \<and> map_of [(''sig'', Str ''short'')] ''sig'' = Some (Str ''short'')
   \<and> modifyField_apply (MaskSignature (''data.'' @ ''sig'')) (Obj [(''data'', Obj [(''sig'', Str ''short'')])])
       = Obj [(''data'', Obj [(''sig'', Str [])])]
   \<and> \<not> truthy (field [(''type'', Str ''signature''), (''key'', Str ''sig'')] ''protected'')
   \<and> (\<lambda>cs. [([(''type'', Str ''signature''), (''key'', Str ''sig'')], ''sig'')]) (getProp Null ''components'')
       = [([(''type'', Str ''signature''), (''key'', Str ''sig'')], ''sig'')]
   \<and> removeProtectedFields (\<lambda>cs. [([(''type'', Str ''signature''), (''key'', Str ''sig'')], ''sig'')])
         Null (Str ''display'') (Arr [Obj [(''data'', Obj [(''sig'', Str ''short'')])]])
       = [Obj [(''data'', Obj [(''sig'', Str ''short'')])]]"
  using signature_mask_rule [of "[(''type'', Str ''signature''), (''key'', Str ''sig'')]"
      "Str ''index''" "''sig''"
      "Obj [(''data'', Obj [(''sig'', Str ''data:image/png;base64,iVBORw0KGgo'')])]" "''data.sig''"
      "''data:image/png;base64,iVBORw0KGgo''"
      "[(''data'', Obj [(''sig'', Str ''short'')])]" "[(''sig'', Str ''short'')]"
      "\<lambda>cs. [([(''type'', Str ''signature''), (''key'', Str ''sig'')], ''sig'')]" Null
      "[Obj [(''data'', Obj [(''sig'', Str ''short'')])]]"]
  by (simp add: plainKey_def field_def lodash_get_def lodash_set_def nullish_def toPath_def isObject_def jsLess_Num)


subsection \<open>The renderer and the component map\<close>

lemma renderBody_unknown:
  "map_of cs key = None \<Longrightarrow>
   renderBody m rec data key cs = Inr (\<lparr>label = Str key, value = storedValue data key\<rparr>, cs)"
  by (simp add: renderBody_def)

lemma renderBody_multiple:
  "map_of cs key = Some c \<Longrightarrow> truthy (field c ''multiple'') \<Longrightarrow>
   renderBody m rec data key cs =
     (case renderMultiple rec key (storedValue data key) (clearMultiple key c cs) of
        Inl e \<Rightarrow> Inl e
      | Inr (subs, cs') \<Rightarrow>
          Inr (\<lparr>label = labelOf c, value = Str (join '', '' (map value subs))\<rparr>, cs'))"
  by (simp add: renderBody_def)

lemma renderBody_single:
  "map_of cs key = Some c \<Longrightarrow> \<not> truthy (field c ''multiple'') \<Longrightarrow>
   renderBody m rec data key cs =
     (case renderType m rec c (storedValue data key) cs of
        Inl e \<Rightarrow> Inl e
      | Inr (x, cs') \<Rightarrow>
          Inr (\<lparr>label = labelOf c, value = ensureString (protectedOverride c x)\<rparr>, cs'))"
  by (simp add: renderBody_def)

lemma field_update_same: "field (AList.update k v c) k = v"
  by (simp add: field_def update_conv')


lemma flagCleared_refl: "flagCleared c c"
  by (simp add: flagCleared_def)

lemma flagCleared_trans: "flagCleared a b \<Longrightarrow> flagCleared b c \<Longrightarrow> flagCleared a c"
  by (auto simp: flagCleared_def field_update_same)

lemma onlyFlagsCleared_refl: "onlyFlagsCleared cs cs"
  by (simp add: onlyFlagsCleared_def list_all2_same flagCleared_refl)

lemma onlyFlagsCleared_trans:
  "onlyFlagsCleared a b \<Longrightarrow> onlyFlagsCleared b c \<Longrightarrow> onlyFlagsCleared a c"
  unfolding onlyFlagsCleared_def
  by (auto elim: list_all2_trans [rotated] intro: flagCleared_trans)

lemma onlyFlagsCleared_clearMultiple:
  "map_of cs key = Some c \<Longrightarrow> truthy (field c ''multiple'') \<Longrightarrow>
   onlyFlagsCleared cs (clearMultiple key c cs)"
proof (induction cs)
  case Nil
  then show ?case by simp
next
  case (Cons a cs)
  then show ?case
    by (cases a)
       (auto simp: onlyFlagsCleared_def clearMultiple_def flagCleared_def list_all2_same)
qed

lemma onlyFlagsCleared_lookup:
  "onlyFlagsCleared cs cs' \<Longrightarrow> map_of cs k = Some c \<Longrightarrow>
   \<exists>c'. map_of cs' k = Some c' \<and> flagCleared c c'"
proof (induction cs arbitrary: cs')
  case Nil
  then show ?case by simp
next
  case (Cons a cs)
  then obtain a' cs1 where cs': "cs' = a' # cs1"
    by (cases cs') (auto simp: onlyFlagsCleared_def)
  with Cons.prems have rest: "onlyFlagsCleared cs cs1" and hd: "fst a' = fst a" "flagCleared (snd a) (snd a')"
    by (auto simp: onlyFlagsCleared_def)
  show ?case
  proof (cases "fst a = k")
    case True
    with Cons.prems hd cs' show ?thesis by (cases a; cases a') auto
  next
    case False
    with Cons.prems have "map_of cs k = Some c" by (cases a) auto
    from Cons.IH [OF rest this] False hd cs' show ?thesis by (cases a; cases a') auto
  qed
qed

lemma onlyFlagsCleared_no_flags:
  assumes "onlyFlagsCleared cs cs'" "\<forall>c \<in> snd ` set cs. \<not> truthy (field c ''multiple'')"
  shows "cs' = cs"
proof -
  have "list_all2 flagCleared (map snd cs) (map snd cs')" "map fst cs' = map fst cs"
    using assms(1) by (auto simp: onlyFlagsCleared_def)
  moreover have "list_all2 flagCleared xs ys \<Longrightarrow> \<forall>c \<in> set xs. \<not> truthy (field c ''multiple'')
      \<Longrightarrow> ys = xs" for xs ys
    by (induction xs ys rule: list_all2_induct) (auto simp: flagCleared_def)
  ultimately have "map snd cs' = map snd cs" using assms(2) by auto
  with \<open>map fst cs' = map fst cs\<close> show ?thesis by (rule pair_list_eqI)
qed

lemma mapState_preserves:
  assumes "\<And>x s y s'. f x s = Inr (y, s') \<Longrightarrow> onlyFlagsCleared s s'"
  shows "mapState f xs s = Inr (ys, s') \<Longrightarrow> onlyFlagsCleared s s'"
proof (induction xs arbitrary: s ys)
  case Nil
  then show ?case by (simp add: onlyFlagsCleared_refl)
next
  case (Cons x xs)
  from Cons.prems obtain y s1 ys1 where
    1: "f x s = Inr (y, s1)" and 2: "mapState f xs s1 = Inr (ys1, s')"
    by (auto split: sum.splits prod.splits)
  from assms [OF 1] Cons.IH [OF 2] show ?case by (rule onlyFlagsCleared_trans)
qed

lemma renderType_preserves:
  assumes rec: "\<And>d k s r s'. rec d k s = Inr (r, s') \<Longrightarrow> onlyFlagsCleared s s'"
    and "renderType m rec c v cs = Inr (x, cs')"
  shows "onlyFlagsCleared cs cs'"
proof -
  have cont: "renderContainer rec v cs = Inr (x, cs') \<Longrightarrow> onlyFlagsCleared cs cs'"
    unfolding renderContainer_def
    by (auto split: sum.splits prod.splits intro: mapState_preserves [where f = "\<lambda>(subKey, subValue). rec v subKey"] rec)
  have row: "renderDatagridRow rec cols sv s = Inr (y, s') \<Longrightarrow> onlyFlagsCleared s s'" for cols sv s y s'
    unfolding renderDatagridRow_def
    by (auto split: sum.splits prod.splits intro: mapState_preserves [where f = "\<lambda>column. rec sv (toStr (field column ''key''))"] rec)
  have grid: "renderDatagrid rec v cs = Inr (x, cs') \<Longrightarrow> onlyFlagsCleared cs cs'"
    unfolding renderDatagrid_def Let_def
    by (auto split: sum.splits prod.splits intro: mapState_preserves [where f = "renderDatagridRow rec (datagridColumns v cs)"] row)
  show ?thesis
    using assms(2) cont grid
    by (auto simp: renderType_def Let_def withState_def onlyFlagsCleared_refl split: if_splits sum.splits)
qed

lemma renderBody_preserves:
  assumes rec: "\<And>d k s r s'. rec d k s = Inr (r, s') \<Longrightarrow> onlyFlagsCleared s s'"
    and "renderBody m rec data key cs = Inr (r, cs')"
  shows "onlyFlagsCleared cs cs'"
proof (cases "map_of cs key")
  case None
  with assms(2) show ?thesis by (simp add: renderBody_unknown onlyFlagsCleared_refl)
next
  case (Some c)
  show ?thesis
  proof (cases "truthy (field c ''multiple'')")
    case True
    with Some assms(2) obtain subs where
      "renderMultiple rec key (storedValue data key) (clearMultiple key c cs) = Inr (subs, cs')"
      by (auto simp: renderBody_multiple split: sum.splits prod.splits)
    then have "onlyFlagsCleared (clearMultiple key c cs) cs'"
      unfolding renderMultiple_def
      by (rule mapState_preserves [rotated]) (rule rec)
    with onlyFlagsCleared_clearMultiple [OF Some True] show ?thesis
      by (rule onlyFlagsCleared_trans)
  next
    case False
    with Some assms(2) obtain x where "renderType m rec c (storedValue data key) cs = Inr (x, cs')"
      by (auto simp: renderBody_single split: sum.splits prod.splits)
    with rec show ?thesis by (rule renderType_preserves)
  qed
qed

lemma render_preserves:
  "renderComponentValue m n data key cs = Inr (r, cs') \<Longrightarrow> onlyFlagsCleared cs cs'"
proof (induction n arbitrary: data key cs r cs')
  case 0
  then show ?case by simp
next
  case (Suc n)
  from Suc.prems have "renderBody m (renderComponentValue m n) data key cs = Inr (r, cs')" by simp
  then show ?case by (rule renderBody_preserves [rotated]) (rule Suc.IH)
qed

lemma map_of_clearMultiple:
  "map_of (clearMultiple key c cs) key = Some (AList.update ''multiple'' (Bool False) c)"
  by (simp add: clearMultiple_def update_conv')

lemma flagCleared_off: "\<not> truthy (field c ''multiple'') \<Longrightarrow> flagCleared c c' \<Longrightarrow> c' = c"
  by (auto simp: flagCleared_def)

text \<open>
  C3, as stated, fails: rendering a component marked multiple leaves its
  \<^verbatim>\<open>multiple\<close> flag switched off in the component map, and a second rendering with
  that map no longer joins the elements with \<^verbatim>\<open>", "\<close>.
\<close>

theorem schema_mutated_counterexample:
  "renderComponentValue momentStub 2 (Obj [(''tags'', Arr [Str ''a'', Str ''b''])]) ''tags''
     [(''tags'', [(''type'', Str ''textfield''), (''key'', Str ''tags''), (''multiple'', Bool True)])]
   = Inr (\<lparr>label = Str ''tags'', value = Str ''a, b''\<rparr>,
          [(''tags'', [(''type'', Str ''textfield''), (''key'', Str ''tags''), (''multiple'', Bool False)])])
   \<and> renderComponentValue momentStub 2 (Obj [(''tags'', Arr [Str ''a'', Str ''b''])]) ''tags''
     [(''tags'', [(''type'', Str ''textfield''), (''key'', Str ''tags''), (''multiple'', Bool False)])]
   = Inr (\<lparr>label = Str ''tags'', value = Str ''a,b''\<rparr>,
          [(''tags'', [(''type'', Str ''textfield''), (''key'', Str ''tags''), (''multiple'', Bool False)])])"
  by code_simp

text \<open>
  C3, amended. A call of \<open>renderComponentValue\<close> that returns changes the component
  map at most by switching \<^verbatim>\<open>multiple\<close> flags off: the keys and their order stay, and
  each definition is the one before the call or that one with its set \<^verbatim>\<open>multiple\<close> flag
  now \<^verbatim>\<open>false\<close>. A map without set flags is returned unchanged; the rendered
  component itself, when it is marked multiple, has the flag off afterwards.
\<close>

theorem schema_only_flags_cleared:
  assumes "renderComponentValue moment n data key components = Inr (cv, components')"
  shows "onlyFlagsCleared components components'
    \<and> ((\<forall>c \<in> snd ` set components. \<not> truthy (field c ''multiple'')) \<longrightarrow> components' = components)
    \<and> (\<forall>c. map_of components key = Some c \<and> truthy (field c ''multiple'') \<longrightarrow>
          map_of components' key = Some (AList.update ''multiple'' (Bool False) c))"
proof (intro conjI impI allI)
  show inv: "onlyFlagsCleared components components'"
    using assms by (rule render_preserves)
  show "components' = components" if "\<forall>c \<in> snd ` set components. \<not> truthy (field c ''multiple'')"
    using inv that by (rule onlyFlagsCleared_no_flags)
  fix c
  assume c: "map_of components key = Some c \<and> truthy (field c ''multiple'')"
  let ?c1 = "AList.update ''multiple'' (Bool False) c"
  obtain k where n: "n = Suc k" using assms by (cases n) auto
  with assms c obtain subs where
    "renderMultiple (renderComponentValue moment k) key (storedValue data key)
       (clearMultiple key c components) = Inr (subs, components')"
    by (auto simp: renderBody_multiple split: sum.splits prod.splits)
  then have "onlyFlagsCleared (clearMultiple key c components) components'"
    unfolding renderMultiple_def by (rule mapState_preserves [rotated]) (rule render_preserves)
  from onlyFlagsCleared_lookup [OF this map_of_clearMultiple]
  obtain c' where c': "map_of components' key = Some c'" "flagCleared ?c1 c'" by blast
  have "\<not> truthy (field ?c1 ''multiple'')" by (simp add: field_update_same)
  from flagCleared_off [OF this c'(2)] c'(1)
  show "map_of components' key = Some ?c1" by simp
qed

theorem schema_only_flags_cleared_witness:
  "renderComponentValue momentStub 2 (Obj [(''tags'', Arr [Str ''a'', Str ''b''])]) ''tags''
     [(''name'', [(''type'', Str ''textfield''), (''key'', Str ''name'')]),
      (''tags'', [(''type'', Str ''textfield''), (''key'', Str ''tags''), (''multiple'', Bool True)])]
   = Inr (\<lparr>label = Str ''tags'', value = Str ''a, b''\<rparr>,
      [(''name'', [(''type'', Str ''textfield''), (''key'', Str ''name'')]),
       (''tags'', [(''type'', Str ''textfield''), (''key'', Str ''tags''), (''multiple'', Bool False)])])
   \<and> onlyFlagsCleared
     [(''name'', [(''type'', Str ''textfield''), (''key'', Str ''name'')]),
      (''tags'', [(''type'', Str ''textfield''), (''key'', Str ''tags''), (''multiple'', Bool True)])]
     [(''name'', [(''type'', Str ''textfield''), (''key'', Str ''name'')]),
      (''tags'', [(''type'', Str ''textfield''), (''key'', Str ''tags''), (''multiple'', Bool False)])]"
proof -
  have h: "renderComponentValue momentStub 2 (Obj [(''tags'', Arr [Str ''a'', Str ''b''])]) ''tags''
     [(''name'', [(''type'', Str ''textfield''), (''key'', Str ''name'')]),
      (''tags'', [(''type'', Str ''textfield''), (''key'', Str ''tags''), (''multiple'', Bool True)])]
   = Inr (\<lparr>label = Str ''tags'', value = Str ''a, b''\<rparr>,
      [(''name'', [(''type'', Str ''textfield''), (''key'', Str ''name'')]),
       (''tags'', [(''type'', Str ''textfield''), (''key'', Str ''tags''), (''multiple'', Bool False)])])"
    by code_simp
  from schema_only_flags_cleared [OF h] h show ?thesis by simp
qed

text \<open>
  C4, as stated, fails for a key that is not in the component map: the stored number
  is returned as it is, not as a string.
\<close>

theorem passthrough_not_coerced_counterexample:
  "map_of ([] :: components) ''age'' = None
   \<and> renderComponentValue momentStub 1 (Obj [(''age'', Num 5)]) ''age'' []
     = Inr (\<lparr>label = Str ''age'', value = Num 5\<rparr>, [])"
  by code_simp

text \<open>
  C4, amended. For a key that is not in the component map the returned value is the
  stored value itself (the empty string when it is missing or falsy), not coerced.
  For a key in the map every returned value is a string, and for a single-valued
  component it is the string form of the value computed by the type dispatch and the
  protected override: the empty string when that is falsy.
\<close>

theorem rendered_value_type:
  "(map_of components key = None \<longrightarrow>
      renderComponentValue moment (Suc n) data key components
        = Inr (\<lparr>label = Str key, value = storedValue data key\<rparr>, components))
   \<and> (map_of components key = Some c
        \<and> renderComponentValue moment n data key components = Inr (cv, components') \<longrightarrow>
      (\<exists>s. value cv = Str s))
   \<and> (map_of components key = Some c \<and> \<not> truthy (field c ''multiple'')
        \<and> renderComponentValue moment (Suc n) data key components = Inr (cv, components') \<longrightarrow>
      (\<exists>x. renderType moment (renderComponentValue moment n) c (storedValue data key) components
              = Inr (x, components')
           \<and> value cv = ensureString (protectedOverride c x)))"
proof (intro conjI impI)
  assume "map_of components key = None"
  then show "renderComponentValue moment (Suc n) data key components
        = Inr (\<lparr>label = Str key, value = storedValue data key\<rparr>, components)"
    by (simp add: renderBody_unknown)
next
  assume a: "map_of components key = Some c
        \<and> renderComponentValue moment n data key components = Inr (cv, components')"
  then obtain k where n: "n = Suc k" by (cases n) auto
  show "\<exists>s. value cv = Str s"
  proof (cases "truthy (field c ''multiple'')")
    case True
    with a n show ?thesis
      by (auto simp: renderBody_multiple split: sum.splits prod.splits)
  next
    case False
    with a n show ?thesis
      by (auto simp: renderBody_single ensureString_def split: sum.splits prod.splits)
  qed
next
  assume "map_of components key = Some c \<and> \<not> truthy (field c ''multiple'')
        \<and> renderComponentValue moment (Suc n) data key components = Inr (cv, components')"
  then show "\<exists>x. renderType moment (renderComponentValue moment n) c (storedValue data key) components
              = Inr (x, components')
           \<and> value cv = ensureString (protectedOverride c x)"
    by (auto simp: renderBody_single split: sum.splits prod.splits)
qed

theorem rendered_value_type_witness:
  "map_of ([] :: components) ''age'' = None
   \<and> renderComponentValue momentStub (Suc 0) (Obj [(''age'', Num 5)]) ''age'' []
       = Inr (\<lparr>label = Str ''age'', value = storedValue (Obj [(''age'', Num 5)]) ''age''\<rparr>, [])
   \<and> storedValue (Obj [(''age'', Num 5)]) ''age'' = Num 5
   \<and> map_of [(''age'', [(''type'', Str ''number''), (''key'', Str ''age'')])] ''age''
       = Some [(''type'', Str ''number''), (''key'', Str ''age'')]
   \<and> \<not> truthy (field [(''type'', Str ''number''), (''key'', Str ''age'')] ''multiple'')
   \<and> renderComponentValue momentStub (Suc 0) (Obj [(''age'', Num 5)]) ''age''
        [(''age'', [(''type'', Str ''number''), (''key'', Str ''age'')])]
       = Inr (\<lparr>label = Str ''age'', value = Str ''5''\<rparr>,
              [(''age'', [(''type'', Str ''number''), (''key'', Str ''age'')])])
   \<and> (\<exists>s. value \<lparr>label = Str ''age'', value = Str ''5''\<rparr> = Str s)"
proof -
  have h: "renderComponentValue momentStub (Suc 0) (Obj [(''age'', Num 5)]) ''age''
        [(''age'', [(''type'', Str ''number''), (''key'', Str ''age'')])]
       = Inr (\<lparr>label = Str ''age'', value = Str ''5''\<rparr>,
              [(''age'', [(''type'', Str ''number''), (''key'', Str ''age'')])])"
    by code_simp
  have s: "storedValue (Obj [(''age'', Num 5)]) ''age'' = Num 5" by code_simp
  have f: "\<not> truthy (field [(''type'', Str ''number''), (''key'', Str ''age'')] ''multiple'')"
    by code_simp
  from rendered_value_type [where components = "[]" and key = "''age''" and moment = momentStub
      and n = 0 and data = "Obj [(''age'', Num 5)]"]
    rendered_value_type [where components = "[(''age'', [(''type'', Str ''number''), (''key'', Str ''age'')])]"
      and key = "''age''" and moment = momentStub and n = "Suc 0" and data = "Obj [(''age'', Num 5)]"
      and c = "[(''type'', Str ''number''), (''key'', Str ''age'')]"
      and cv = "\<lparr>label = Str ''age'', value = Str ''5''\<rparr>"
      and components' = "[(''age'', [(''type'', Str ''number''), (''key'', Str ''age'')])]"]
    rendered_value_type [where components = "[(''age'', [(''type'', Str ''number''), (''key'', Str ''age'')])]"
      and key = "''age''" and moment = momentStub and n = 0 and data = "Obj [(''age'', Num 5)]"
      and c = "[(''type'', Str ''number''), (''key'', Str ''age'')]"
      and cv = "\<lparr>label = Str ''age'', value = Str ''5''\<rparr>"
      and components' = "[(''age'', [(''type'', Str ''number''), (''key'', Str ''age'')])]"]
    h s f
  show ?thesis by simp
qed

subsection \<open>Absent values and empty datagrids\<close>


lemma renderMultiple_empty: "renderMultiple rec key (Str []) cs = Inr ([], cs)"
  by (simp add: renderMultiple_def indexKeys_def)

lemma renderMultiple_empty_list: "renderMultiple rec key (Arr []) cs = Inr ([], cs)"
  by (simp add: renderMultiple_def indexKeys_def)


lemma ensureString_Str: "ensureString (Str s) = Str s"
  by (simp add: ensureString_def)

lemma protectedOverride_off:
  "\<not> truthy (field c ''protected'') \<Longrightarrow> protectedOverride c x = x"
  by (simp add: protectedOverride_def)





lemma datagridColumns_empty:
  "datagridColumns (Arr []) cs = []" "datagridColumns (Str []) cs = []"
  by (simp_all add: datagridColumns_def jsGreater_def toNumber_def)

lemma renderDatagrid_empty:
  "v = Arr [] \<or> v = Str [] \<Longrightarrow>
   renderDatagrid rec v cs = Inr (Str (tableOpen @ ''<tr></tr>'' @ ''</table>''), cs)"
  by (auto simp: renderDatagrid_def datagridColumns_empty datagridHeader_def indexKeys_def)

text \<open>
  C9. Rendering a datagrid component whose stored value is an empty list or missing
  never raises an error; the column set is empty, and the datagrid is rendered as a
  table of an empty header row and no data rows.
\<close>

theorem empty_datagrid:
  assumes "map_of components key = Some c" and "field c ''type'' = Str ''datagrid''"
    and "lodash_get data key = Arr [] \<or> lodash_get data key = Undefined"
  shows "(\<exists>cv components'.
            renderComponentValue moment (Suc n) data key components = Inr (cv, components'))
    \<and> datagridColumns (storedValue data key) components = []
    \<and> renderDatagrid rec (storedValue data key) components
         = Inr (Str (tableOpen @ ''<tr></tr>'' @ ''</table>''), components)
    \<and> (\<not> truthy (field c ''multiple'') \<and> \<not> truthy (field c ''protected'') \<longrightarrow>
         renderComponentValue moment (Suc n) data key components
           = Inr (\<lparr>label = labelOf c, value = Str (tableOpen @ ''<tr></tr>'' @ ''</table>'')\<rparr>,
                  components))"
proof -
  have v: "storedValue data key = Arr [] \<or> storedValue data key = Str []"
    using assms(3) by (auto simp: storedValue_def)
  have t: "renderType moment r c (storedValue data key) components
             = Inr (Str (tableOpen @ ''<tr></tr>'' @ ''</table>''), components)" for r
    using assms(2) renderDatagrid_empty [OF v] by (simp add: renderType_def)
  have nonempty: "truthy (Str (tableOpen @ ''<tr></tr>'' @ ''</table>''))"
    by (simp add: tableOpen_def)
  have single: "renderComponentValue moment (Suc n) data key components
           = Inr (\<lparr>label = labelOf c, value = ensureString (protectedOverride c
                     (Str (tableOpen @ ''<tr></tr>'' @ ''</table>'')))\<rparr>, components)"
    if "\<not> truthy (field c ''multiple'')"
    using that assms(1) t by (simp add: renderBody_single)
  have multi: "renderComponentValue moment (Suc n) data key components
           = Inr (\<lparr>label = labelOf c, value = Str []\<rparr>, clearMultiple key c components)"
    if "truthy (field c ''multiple'')"
    using that assms(1) v
    by (auto simp: renderBody_multiple renderMultiple_empty renderMultiple_empty_list join_def)
  show ?thesis
  proof (intro conjI impI)
    show "\<exists>cv components'.
            renderComponentValue moment (Suc n) data key components = Inr (cv, components')"
      using single multi by (cases "truthy (field c ''multiple'')") blast+
    show "datagridColumns (storedValue data key) components = []"
      using v by (auto simp: datagridColumns_empty)
    show "renderDatagrid rec (storedValue data key) components
         = Inr (Str (tableOpen @ ''<tr></tr>'' @ ''</table>''), components)"
      using v by (rule renderDatagrid_empty)
    assume "\<not> truthy (field c ''multiple'') \<and> \<not> truthy (field c ''protected'')"
    then show "renderComponentValue moment (Suc n) data key components
           = Inr (\<lparr>label = labelOf c, value = Str (tableOpen @ ''<tr></tr>'' @ ''</table>'')\<rparr>,
                  components)"
      using single by (simp add: protectedOverride_off ensureString_Str)
  qed
qed

theorem empty_datagrid_witness:
  "map_of [(''rows'', [(''type'', Str ''datagrid''), (''key'', Str ''rows'')])] ''rows''
     = Some [(''type'', Str ''datagrid''), (''key'', Str ''rows'')]
   \<and> field [(''type'', Str ''datagrid''), (''key'', Str ''rows'')] ''type'' = Str ''datagrid''
   \<and> lodash_get (Obj [(''rows'', Arr [])]) ''rows'' = Arr []
   \<and> \<not> truthy (field [(''type'', Str ''datagrid''), (''key'', Str ''rows'')] ''multiple'')
   \<and> \<not> truthy (field [(''type'', Str ''datagrid''), (''key'', Str ''rows'')] ''protected'')
   \<and> renderComponentValue momentStub (Suc 0) (Obj [(''rows'', Arr [])]) ''rows''
        [(''rows'', [(''type'', Str ''datagrid''), (''key'', Str ''rows'')])]
       = Inr (\<lparr>label = Str ''rows'', value = Str (tableOpen @ ''<tr></tr>'' @ ''</table>'')\<rparr>,
              [(''rows'', [(''type'', Str ''datagrid''), (''key'', Str ''rows'')])])"
proof -
  have g: "lodash_get (Obj [(''rows'', Arr [])]) ''rows'' = Arr []
           \<or> lodash_get (Obj [(''rows'', Arr [])]) ''rows'' = Undefined" by code_simp
  have m: "map_of [(''rows'', [(''type'', Str ''datagrid''), (''key'', Str ''rows'')])] ''rows''
     = Some [(''type'', Str ''datagrid''), (''key'', Str ''rows'')]" by simp
  have t: "field [(''type'', Str ''datagrid''), (''key'', Str ''rows'')] ''type'' = Str ''datagrid''"
    by code_simp
  have l: "labelOf [(''type'', Str ''datagrid''), (''key'', Str ''rows'')] = Str ''rows''"
    "lodash_get (Obj [(''rows'', Arr [])]) ''rows'' = Arr []"
    by code_simp+
  from empty_datagrid [OF m t g, where moment = momentStub and n = 0] l t
  show ?thesis by (simp add: field_def)
qed

subsection \<open>Protected and multiple components\<close>













subsection \<open>Option lookup\<close>





end
